theory Spec2Isabelle
  imports Main
begin

section \<open>The CI constants module of steganer\<close>

text \<open>
  The source is \<^verbatim>\<open>src/ci_scripts/ci_constants.py\<close>: an \<^verbatim>\<open>import os\<close> followed by
  twelve top-level assignments, eleven of a string literal and one of
  \<^verbatim>\<open>os.getenv("GITHUB_TOKEN")\<close>; a last assignment, of
  \<^verbatim>\<open>PACKAGING_POSTINSTALL_SCRIPT\<close>, is commented out and never runs. Loading the module
  executes these statements in order over the module's namespace. The model makes that execution explicit: a process
  state holds the environment mapping, the module namespace and a log of the effects
  performed, and every statement is a function from a state to an error or a new state.
\<close>

subsection \<open>Values, errors and the process state\<close>

text \<open>
  The Python values that can occur in this module: \<^verbatim>\<open>None\<close>, a string, and the
  module object that \<^verbatim>\<open>import os\<close> binds.
\<close>

datatype pyval = PyNone | PyStr string | PyModule string

text \<open>
  The exceptions of the operations modelled here. \<open>NotModelled\<close> is not a Python
  exception: the model of \<^verbatim>\<open>str.format\<close> returns it on a replacement field that uses a
  feature outside the modelled fragment.
\<close>

datatype error =
    NameError string
  | AttributeError string
  | KeyError string
  | IndexError
  | ValueError
  | NotModelled

text \<open>
  What a statement does besides computing: importing a module, reading a variable of the
  environment, binding a name of the module namespace to a value.
\<close>

datatype effect = Import string | EnvRead string | Bind string pyval

text \<open>
  \<^verbatim>\<open>os.environ\<close> is a mapping from variable names to strings; the module namespace is a
  dictionary from names to values.
\<close>

type_synonym env = "string \<rightharpoonup> string"

record process =
  environ :: env
  globals :: "string \<rightharpoonup> pyval"
  trace :: "effect list"

type_synonym stmt = "process \<Rightarrow> error + process"
type_synonym expr = "process \<Rightarrow> error + (pyval \<times> process)"

subsection \<open>Expressions and statements\<close>

text \<open>A string literal evaluates to itself, with no effect.\<close>

definition str_lit :: "string \<Rightarrow> expr" where
  "str_lit v s = Inr (PyStr v, s)"

text \<open>
  \<^verbatim>\<open>os.getenv(key, default=None)\<close> is \<^verbatim>\<open>os.environ.get(key, default)\<close>: the value of
  the variable, or the default \<^verbatim>\<open>None\<close> when the variable is not set. The module
  passes a string literal as the key and no default.
\<close>

definition os_getenv :: "string \<Rightarrow> env \<Rightarrow> pyval" where
  "os_getenv key e = (case e key of None \<Rightarrow> PyNone | Some v \<Rightarrow> PyStr v)"

text \<open>
  The call expression \<^verbatim>\<open>os.getenv(key)\<close>: the name \<^verbatim>\<open>os\<close> is looked up in the module
  namespace (unbound: \<^verbatim>\<open>NameError\<close>; bound to something that is not the module:
  \<^verbatim>\<open>AttributeError\<close>), then the environment is read, which is logged.
\<close>

definition os_getenv_call :: "string \<Rightarrow> expr" where
  "os_getenv_call key s =
     (case globals s ''os'' of
        None \<Rightarrow> Inl (NameError ''os'')
      | Some (PyModule m) \<Rightarrow>
          (if m = ''os''
           then Inr (os_getenv key (environ s), s\<lparr>trace := trace s @ [EnvRead key]\<rparr>)
           else Inl (AttributeError ''getenv''))
      | Some _ \<Rightarrow> Inl (AttributeError ''getenv''))"

text \<open>\<^verbatim>\<open>import os\<close> binds the name \<^verbatim>\<open>os\<close> to the module object.\<close>

definition import_os :: stmt where
  "import_os s =
     Inr (s\<lparr>globals := (globals s)(''os'' \<mapsto> PyModule ''os''),
            trace := trace s @ [Import ''os'']\<rparr>)"

text \<open>
  The assignment \<^verbatim>\<open>NAME = e\<close> evaluates \<open>e\<close> and binds \<open>NAME\<close> in the module
  namespace; an exception of \<open>e\<close> leaves the name unbound and ends the load.
\<close>

definition assign :: "string \<Rightarrow> expr \<Rightarrow> stmt" where
  "assign name e s =
     (case e s of
        Inl err \<Rightarrow> Inl err
      | Inr (v, s') \<Rightarrow>
          Inr (s'\<lparr>globals := (globals s')(name \<mapsto> v),
                  trace := trace s' @ [Bind name v]\<rparr>))"

text \<open>A module body runs its statements in order and stops at the first exception.\<close>

fun exec_body :: "stmt list \<Rightarrow> process \<Rightarrow> error + process" where
  "exec_body [] s = Inr s"
| "exec_body (c # cs) s =
     (case c s of Inl err \<Rightarrow> Inl err | Inr s' \<Rightarrow> exec_body cs s')"

subsection \<open>The module\<close>

text \<open>The statements of \<^verbatim>\<open>ci_constants.py\<close>, line by line.\<close>

definition ci_constants :: "stmt list" where
  "ci_constants =
    [import_os,
     assign ''BRANCH_TO_MERGE_INTO'' (str_lit ''master''),
     assign ''BRANCH_TO_MERGE'' (str_lit ''staging''),
     assign ''GITHUB_URL'' (str_lit ''https://github.com/''),
     assign ''GITHUB_REPO'' (str_lit ''dante-signal31/steganer.git''),
     assign ''GITHUB_TOKEN'' (os_getenv_call ''GITHUB_TOKEN''),
     assign ''GIT_USERNAME'' (str_lit ''dante-signal31''),
     assign ''GIT_EMAIL'' (str_lit ''dante.signal31@gmail.com''),
     assign ''STEGANER_CONFIGURATION'' (str_lit ''Cargo.toml''),
     assign ''VERSION_PREFIX'' (str_lit ''''),
     assign ''BINTRAY_TEMPLATES_PATH'' (str_lit ''packaging/bintray_descriptor_templates''),
     assign ''BINTRAY_DESCRIPTORS_PATH'' (str_lit ''packaging/''),
     assign ''BINTRAY_DESCRIPTOR_NAME_FORMAT''
       (str_lit ''steganer_{tag}_bintray_descriptor.json'')]"

text \<open>Loading (or reloading) the module executes its body over the process state.\<close>

definition load :: "process \<Rightarrow> error + process" where
  "load s = exec_body ci_constants s"

text \<open>The names the module assigns, in source order.\<close>

definition constant_names :: "string list" where
  "constant_names =
    [''BRANCH_TO_MERGE_INTO'', ''BRANCH_TO_MERGE'', ''GITHUB_URL'', ''GITHUB_REPO'',
     ''GITHUB_TOKEN'', ''GIT_USERNAME'', ''GIT_EMAIL'', ''STEGANER_CONFIGURATION'',
     ''VERSION_PREFIX'', ''BINTRAY_TEMPLATES_PATH'', ''BINTRAY_DESCRIPTORS_PATH'',
     ''BINTRAY_DESCRIPTOR_NAME_FORMAT'']"

subsection \<open>Filling a format string\<close>

text \<open>
  Modelled from the spec: the caller that fills the placeholder of
  \<^verbatim>\<open>BINTRAY_DESCRIPTOR_NAME_FORMAT\<close> is not part of this module. The spec says the
  placeholder \<^verbatim>\<open>{tag}\<close> of the format string is substituted by the calling process with a
  tag value; the substitution is taken to be Python's \<^verbatim>\<open>fmt.format(tag=...)\<close>, on the
  fragment needed for that: \<^verbatim>\<open>{{\<close> and \<^verbatim>\<open>}}\<close> are escaped braces, \<^verbatim>\<open>{name}\<close> is a
  replacement field, a lone brace raises \<^verbatim>\<open>ValueError\<close>. A field with a conversion, a
  format specification, an attribute or an index is outside the fragment.
\<close>

text \<open>
  Modelled from the spec: the value of a replacement field of that substitution, when
  only keyword arguments are passed. An empty or all-digit name is positional and finds
  no argument (\<^verbatim>\<open>IndexError\<close>; a digit string too long for a machine integer is outside
  the fragment), any other name is looked up among the keywords (\<^verbatim>\<open>KeyError\<close> when
  missing). Keyword values are strings and are inserted as they are.
\<close>

definition get_value :: "(string \<rightharpoonup> string) \<Rightarrow> string \<Rightarrow> error + string" where
  "get_value kwargs name =
     (if list_all (\<lambda>c. c \<in> set ''0123456789'') name then
        (if length name \<le> 18 then Inl IndexError else Inl NotModelled)
      else (case kwargs name of None \<Rightarrow> Inl (KeyError name) | Some v \<Rightarrow> Inr v))"

text \<open>
  Modelled from the spec: the output of that substitution is built from left to right;
  a piece is put before what the rest of the scan produces, and an exception of the rest
  is the result.
\<close>

definition emit :: "string \<Rightarrow> error + string \<Rightarrow> error + string" where
  "emit v r = (case r of Inl err \<Rightarrow> Inl err | Inr out \<Rightarrow> Inr (v @ out))"

text \<open>
  Modelled from the spec: the scan of the format string by that substitution. The second
  argument is \<open>None\<close> outside a replacement field and, inside one, the field name read so
  far, reversed.
\<close>

fun format_scan :: "(string \<rightharpoonup> string) \<Rightarrow> string option \<Rightarrow> string \<Rightarrow> error + string" where
  "format_scan kwargs None [] = Inr []"
| "format_scan kwargs (Some f) [] = Inl ValueError"
| "format_scan kwargs None (c # cs) =
     (if c = CHR ''{'' then
        (case cs of
           [] \<Rightarrow> Inl ValueError
         | d # ds \<Rightarrow>
             if d = CHR ''{'' then emit [c] (format_scan kwargs None ds)
             else format_scan kwargs (Some []) cs)
      else if c = CHR ''}'' then
        (case cs of
           [] \<Rightarrow> Inl ValueError
         | d # ds \<Rightarrow>
             if d = CHR ''}'' then emit [c] (format_scan kwargs None ds)
             else Inl ValueError)
      else emit [c] (format_scan kwargs None cs))"
| "format_scan kwargs (Some f) (c # cs) =
     (if c = CHR ''}'' then
        (case get_value kwargs (rev f) of
           Inl err \<Rightarrow> Inl err
         | Inr v \<Rightarrow> emit v (format_scan kwargs None cs))
      else if c = CHR ''{'' then Inl ValueError
      else if c \<in> set ''!:.['' then Inl NotModelled
      else format_scan kwargs (Some (c # f)) cs)"

text \<open>Modelled from the spec: the substitution itself, \<^verbatim>\<open>fmt.format(**kwargs)\<close>.\<close>

definition str_format :: "string \<Rightarrow> (string \<rightharpoonup> string) \<Rightarrow> error + string" where
  "str_format fmt kwargs = format_scan kwargs None fmt"

subsection \<open>Observing a load\<close>





text \<open>
  Loading the module several times in one process (\<^verbatim>\<open>importlib.reload\<close> executes the body
  again over the same namespace): one load, then for each element of the list whatever the
  process does in between, followed by another load.
\<close>

fun load_repeatedly :: "(process \<Rightarrow> process) list \<Rightarrow> process \<Rightarrow> error + process" where
  "load_repeatedly [] s = load s"
| "load_repeatedly (f # fs) s =
     (case load s of Inl err \<Rightarrow> Inl err | Inr s' \<Rightarrow> load_repeatedly fs (f s'))"

text \<open>At how many positions of a string the text \<open>p\<close> occurs.\<close>

fun occurrences :: "string \<Rightarrow> string \<Rightarrow> nat" where
  "occurrences p [] = 0"
| "occurrences p (c # cs) =
     (if take (length p) (c # cs) = p then 1 else 0) + occurrences p cs"

text \<open>The braces of a string, in order.\<close>

definition braces :: "string \<Rightarrow> string" where
  "braces str = filter (\<lambda>c. c = CHR ''{'' \<or> c = CHR ''}'') str"




section \<open>Properties\<close>

subsection \<open>What a load computes\<close>

lemma assign_lit:
  "assign name (str_lit v) s =
     Inr (s\<lparr>globals := (globals s)(name \<mapsto> PyStr v),
            trace := trace s @ [Bind name (PyStr v)]\<rparr>)"
  by (simp add: assign_def str_lit_def)

lemma assign_getenv:
  "globals s ''os'' = Some (PyModule ''os'') \<Longrightarrow>
   assign name (os_getenv_call key) s =
     Inr (s\<lparr>globals := (globals s)(name \<mapsto> os_getenv key (environ s)),
            trace := trace s @ [EnvRead key, Bind name (os_getenv key (environ s))]\<rparr>)"
  by (simp add: assign_def os_getenv_call_def)

text \<open>The state after a load, from any state of the process.\<close>

lemma load_result:
  "load s =
     Inr (s\<lparr>globals := (globals s)
             (''os'' \<mapsto> PyModule ''os'',
              ''BRANCH_TO_MERGE_INTO'' \<mapsto> PyStr ''master'',
              ''BRANCH_TO_MERGE'' \<mapsto> PyStr ''staging'',
              ''GITHUB_URL'' \<mapsto> PyStr ''https://github.com/'',
              ''GITHUB_REPO'' \<mapsto> PyStr ''dante-signal31/steganer.git'',
              ''GITHUB_TOKEN'' \<mapsto> os_getenv ''GITHUB_TOKEN'' (environ s),
              ''GIT_USERNAME'' \<mapsto> PyStr ''dante-signal31'',
              ''GIT_EMAIL'' \<mapsto> PyStr ''dante.signal31@gmail.com'',
              ''STEGANER_CONFIGURATION'' \<mapsto> PyStr ''Cargo.toml'',
              ''VERSION_PREFIX'' \<mapsto> PyStr '''',
              ''BINTRAY_TEMPLATES_PATH'' \<mapsto> PyStr ''packaging/bintray_descriptor_templates'',
              ''BINTRAY_DESCRIPTORS_PATH'' \<mapsto> PyStr ''packaging/'',
              ''BINTRAY_DESCRIPTOR_NAME_FORMAT'' \<mapsto>
                PyStr ''steganer_{tag}_bintray_descriptor.json''),
          trace := trace s @
            [Import ''os'',
             Bind ''BRANCH_TO_MERGE_INTO'' (PyStr ''master''),
             Bind ''BRANCH_TO_MERGE'' (PyStr ''staging''),
             Bind ''GITHUB_URL'' (PyStr ''https://github.com/''),
             Bind ''GITHUB_REPO'' (PyStr ''dante-signal31/steganer.git''),
             EnvRead ''GITHUB_TOKEN'',
             Bind ''GITHUB_TOKEN'' (os_getenv ''GITHUB_TOKEN'' (environ s)),
             Bind ''GIT_USERNAME'' (PyStr ''dante-signal31''),
             Bind ''GIT_EMAIL'' (PyStr ''dante.signal31@gmail.com''),
             Bind ''STEGANER_CONFIGURATION'' (PyStr ''Cargo.toml''),
             Bind ''VERSION_PREFIX'' (PyStr ''''),
             Bind ''BINTRAY_TEMPLATES_PATH'' (PyStr ''packaging/bintray_descriptor_templates''),
             Bind ''BINTRAY_DESCRIPTORS_PATH'' (PyStr ''packaging/''),
             Bind ''BINTRAY_DESCRIPTOR_NAME_FORMAT''
               (PyStr ''steganer_{tag}_bintray_descriptor.json'')]\<rparr>)"
  by (simp add: load_def ci_constants_def import_os_def assign_lit assign_getenv)

lemma load_environ: "load s = Inr s' \<Longrightarrow> environ s' = environ s"
  by (auto simp: load_result)

text \<open>The constants after a load are a function of the token variable alone.\<close>

lemma load_constants:
  "load s = Inr s' \<Longrightarrow>
   map (globals s') constant_names =
     [Some (PyStr ''master''), Some (PyStr ''staging''), Some (PyStr ''https://github.com/''),
      Some (PyStr ''dante-signal31/steganer.git''),
      Some (os_getenv ''GITHUB_TOKEN'' (environ s)),
      Some (PyStr ''dante-signal31''), Some (PyStr ''dante.signal31@gmail.com''),
      Some (PyStr ''Cargo.toml''), Some (PyStr ''''),
      Some (PyStr ''packaging/bintray_descriptor_templates''), Some (PyStr ''packaging/''),
      Some (PyStr ''steganer_{tag}_bintray_descriptor.json'')]"
  by (auto simp: load_result constant_names_def)

lemma load_constants_agree:
  assumes "environ s ''GITHUB_TOKEN'' = environ t ''GITHUB_TOKEN''"
    and "load s = Inr s'" and "load t = Inr t'"
  shows "map (globals s') constant_names = map (globals t') constant_names"
  using assms by (simp add: load_constants os_getenv_def)

subsection \<open>The token\<close>

text \<open>
  C1: after every load the name \<^verbatim>\<open>GITHUB_TOKEN\<close> holds the value the environment variable
  \<^verbatim>\<open>GITHUB_TOKEN\<close> had when the load started, whatever string that is, and \<^verbatim>\<open>None\<close> when
  the variable is not set; the load raises nothing. With the variable set to
  \<^verbatim>\<open>abc123\<close> the token is \<^verbatim>\<open>abc123\<close>, and with the variable removed it is \<^verbatim>\<open>None\<close>.
\<close>

theorem github_token_from_environment:
  "(\<exists>s'. load s = Inr s' \<and>
      globals s' ''GITHUB_TOKEN'' =
        Some (case environ s ''GITHUB_TOKEN'' of None \<Rightarrow> PyNone | Some v \<Rightarrow> PyStr v))
   \<and> (\<exists>s'. load (s\<lparr>environ := (environ s)(''GITHUB_TOKEN'' \<mapsto> ''abc123'')\<rparr>) = Inr s' \<and>
      globals s' ''GITHUB_TOKEN'' = Some (PyStr ''abc123''))
   \<and> (\<exists>s'. load (s\<lparr>environ := (environ s)(''GITHUB_TOKEN'' := None)\<rparr>) = Inr s' \<and>
      globals s' ''GITHUB_TOKEN'' = Some PyNone)"
  by (simp add: load_result os_getenv_def)

text \<open>
  C9: when the variable \<^verbatim>\<open>GITHUB_TOKEN\<close> is not set, the token is \<^verbatim>\<open>None\<close>, which is not
  the empty string: a load of the same process with the variable set to the empty string
  gives the token \<^verbatim>\<open>""\<close>, a different value.
\<close>

theorem unset_token_is_none:
  assumes "environ s ''GITHUB_TOKEN'' = None"
  shows "\<exists>s' t'. load s = Inr s' \<and> globals s' ''GITHUB_TOKEN'' = Some PyNone
           \<and> load (s\<lparr>environ := (environ s)(''GITHUB_TOKEN'' \<mapsto> '''')\<rparr>) = Inr t'
           \<and> globals t' ''GITHUB_TOKEN'' = Some (PyStr '''')
           \<and> globals s' ''GITHUB_TOKEN'' \<noteq> globals t' ''GITHUB_TOKEN''"
  using assms by (simp add: load_result os_getenv_def)

theorem unset_token_is_none_witness:
  "environ \<lparr>environ = [''HOME'' \<mapsto> ''/root''], globals = Map.empty, trace = []\<rparr> ''GITHUB_TOKEN''
     = None
   \<and> (\<exists>s' t'. load \<lparr>environ = [''HOME'' \<mapsto> ''/root''], globals = Map.empty, trace = []\<rparr> = Inr s'
         \<and> globals s' ''GITHUB_TOKEN'' = Some PyNone
         \<and> load \<lparr>environ = [''HOME'' \<mapsto> ''/root'', ''GITHUB_TOKEN'' \<mapsto> ''''],
                  globals = Map.empty, trace = []\<rparr> = Inr t'
         \<and> globals t' ''GITHUB_TOKEN'' = Some (PyStr '''')
         \<and> globals s' ''GITHUB_TOKEN'' \<noteq> globals t' ''GITHUB_TOKEN'')"
  using unset_token_is_none
    [of "\<lparr>environ = [''HOME'' \<mapsto> ''/root''], globals = Map.empty, trace = []\<rparr>"]
  by simp

subsection \<open>The literal constants\<close>

text \<open>
  C3: after every load each constant other than the token holds the literal of its
  assignment (the two branch names, the hosting URL, the repository, the committer's user
  name and e-mail, the manifest path, the version prefix, the two paths and the file name
  format), and the token holds the value of the environment variable, or \<^verbatim>\<open>None\<close> when
  the variable is not set.
\<close>

theorem constants_have_declared_values:
  "\<exists>s'. load s = Inr s'
     \<and> globals s' ''BRANCH_TO_MERGE_INTO'' = Some (PyStr ''master'')
     \<and> globals s' ''BRANCH_TO_MERGE'' = Some (PyStr ''staging'')
     \<and> globals s' ''GITHUB_URL'' = Some (PyStr ''https://github.com/'')
     \<and> globals s' ''GITHUB_REPO'' = Some (PyStr ''dante-signal31/steganer.git'')
     \<and> globals s' ''GIT_USERNAME'' = Some (PyStr ''dante-signal31'')
     \<and> globals s' ''GIT_EMAIL'' = Some (PyStr ''dante.signal31@gmail.com'')
     \<and> globals s' ''STEGANER_CONFIGURATION'' = Some (PyStr ''Cargo.toml'')
     \<and> globals s' ''VERSION_PREFIX'' = Some (PyStr '''')
     \<and> globals s' ''BINTRAY_TEMPLATES_PATH'' =
           Some (PyStr ''packaging/bintray_descriptor_templates'')
     \<and> globals s' ''BINTRAY_DESCRIPTORS_PATH'' = Some (PyStr ''packaging/'')
     \<and> globals s' ''BINTRAY_DESCRIPTOR_NAME_FORMAT'' =
           Some (PyStr ''steganer_{tag}_bintray_descriptor.json'')
     \<and> globals s' ''GITHUB_TOKEN'' =
           Some (case environ s ''GITHUB_TOKEN'' of None \<Rightarrow> PyNone | Some v \<Rightarrow> PyStr v)"
  by (simp add: load_result os_getenv_def)

text \<open>C10: after every load the version prefix is the empty string.\<close>

theorem version_prefix_is_empty:
  "\<exists>s'. load s = Inr s' \<and> globals s' ''VERSION_PREFIX'' = Some (PyStr [])"
  by (simp add: load_result)

subsection \<open>The descriptor file name\<close>

text \<open>
  C2: formatting the loaded \<^verbatim>\<open>BINTRAY_DESCRIPTOR_NAME_FORMAT\<close> with \<^verbatim>\<open>tag="v1.2.3"\<close>
  gives \<^verbatim>\<open>steganer_v1.2.3_bintray_descriptor.json\<close>.
\<close>

theorem descriptor_name_for_tag:
  "\<exists>s' fmt. load s = Inr s'
     \<and> globals s' ''BINTRAY_DESCRIPTOR_NAME_FORMAT'' = Some (PyStr fmt)
     \<and> str_format fmt [''tag'' \<mapsto> ''v1.2.3''] = Inr ''steganer_v1.2.3_bintray_descriptor.json''"
  by (simp add: load_result str_format_def get_value_def emit_def)

text \<open>
  C4: the module defines the two path constants \<^verbatim>\<open>BINTRAY_TEMPLATES_PATH\<close> and
  \<^verbatim>\<open>BINTRAY_DESCRIPTORS_PATH\<close> and the file name format
  \<^verbatim>\<open>BINTRAY_DESCRIPTOR_NAME_FORMAT\<close>, all strings, and the format contains the
  placeholder \<^verbatim>\<open>{tag}\<close> once and no other brace.
\<close>

theorem descriptor_name_format_has_one_placeholder:
  "\<exists>s' fmt. load s = Inr s'
     \<and> globals s' ''BINTRAY_TEMPLATES_PATH'' =
           Some (PyStr ''packaging/bintray_descriptor_templates'')
     \<and> globals s' ''BINTRAY_DESCRIPTORS_PATH'' = Some (PyStr ''packaging/'')
     \<and> globals s' ''BINTRAY_DESCRIPTOR_NAME_FORMAT'' = Some (PyStr fmt)
     \<and> occurrences ''{tag}'' fmt = 1
     \<and> braces fmt = ''{}''"
  by (simp add: load_result braces_def)

text \<open>
  The two path constants themselves contain no brace: the placeholder is in the file name
  format only.
\<close>

lemma path_constants_have_no_placeholder:
  "braces ''packaging/bintray_descriptor_templates'' = []
   \<and> braces ''packaging/'' = []"
  by (simp add: braces_def)

subsection \<open>Totality\<close>

text \<open>
  C8: from every state of the process, whatever the environment and whatever the module
  namespace held before, the load returns a state: no statement of the body raises.
\<close>

theorem load_never_fails:
  "(\<exists>s'. load s = Inr s') \<and> (\<forall>err. load s \<noteq> Inl err)"
  by (simp add: load_result)

subsection \<open>Effects\<close>



subsection \<open>Loading again\<close>

lemma load_repeatedly_constants:
  assumes "list_all (\<lambda>f. \<forall>t. environ (f t) ''GITHUB_TOKEN'' = environ t ''GITHUB_TOKEN'') fs"
  shows "\<exists>sn. load_repeatedly fs s = Inr sn
           \<and> environ sn ''GITHUB_TOKEN'' = environ s ''GITHUB_TOKEN''
           \<and> (\<forall>s1. load s = Inr s1 \<longrightarrow>
                 map (globals sn) constant_names = map (globals s1) constant_names)"
  using assms
proof (induction fs arbitrary: s)
  case Nil
  obtain s1 where s1: "load s = Inr s1"
    by (simp add: load_result)
  then show ?case
    by (simp add: load_environ)
next
  case (Cons f fs)
  obtain s1 where s1: "load s = Inr s1"
    by (simp add: load_result)
  from Cons.prems have f: "environ (f s1) ''GITHUB_TOKEN'' = environ s1 ''GITHUB_TOKEN''"
    and fs: "list_all (\<lambda>f. \<forall>t. environ (f t) ''GITHUB_TOKEN'' = environ t ''GITHUB_TOKEN'') fs"
    by simp_all
  from s1 have env1: "environ s1 = environ s"
    by (rule load_environ)
  obtain s2 where s2: "load (f s1) = Inr s2"
    by (simp add: load_result)
  from Cons.IH [OF fs, of "f s1"] obtain sn where
    sn: "load_repeatedly fs (f s1) = Inr sn"
    and envn: "environ sn ''GITHUB_TOKEN'' = environ (f s1) ''GITHUB_TOKEN''"
    and cn: "map (globals sn) constant_names = map (globals s2) constant_names"
    using s2 by auto
  have "map (globals s2) constant_names = map (globals s1) constant_names"
    using f env1 s1 s2 by (intro load_constants_agree [of "f s1" s]) simp_all
  with sn envn cn f env1 s1 show ?case
    by simp
qed

text \<open>
  C6: however often the module is loaded in a process, and whatever the process does
  between two loads, as long as that leaves the variable \<^verbatim>\<open>GITHUB_TOKEN\<close> as it is, the
  last load gives every constant the value the first load gave it.
\<close>

theorem load_idempotent:
  assumes "list_all (\<lambda>f. \<forall>t. environ (f t) ''GITHUB_TOKEN'' = environ t ''GITHUB_TOKEN'') fs"
  shows "\<exists>s1 sn. load s = Inr s1 \<and> load_repeatedly fs s = Inr sn
           \<and> map (globals sn) constant_names = map (globals s1) constant_names"
proof -
  obtain s1 where s1: "load s = Inr s1"
    by (simp add: load_result)
  with load_repeatedly_constants [OF assms, of s] show ?thesis
    by auto
qed

theorem load_idempotent_witness:
  "list_all (\<lambda>f. \<forall>t. environ (f t) ''GITHUB_TOKEN'' = environ t ''GITHUB_TOKEN'')
     [\<lambda>t. t\<lparr>environ := (environ t)(''HOME'' \<mapsto> ''/tmp'')\<rparr>,
      \<lambda>t. t\<lparr>globals := (globals t)(''VERSION_PREFIX'' \<mapsto> PyStr ''v'')\<rparr>]
   \<and> (\<exists>s1 sn.
         load \<lparr>environ = [''GITHUB_TOKEN'' \<mapsto> ''abc123''], globals = Map.empty, trace = []\<rparr>
           = Inr s1
         \<and> load_repeatedly
             [\<lambda>t. t\<lparr>environ := (environ t)(''HOME'' \<mapsto> ''/tmp'')\<rparr>,
              \<lambda>t. t\<lparr>globals := (globals t)(''VERSION_PREFIX'' \<mapsto> PyStr ''v'')\<rparr>]
             \<lparr>environ = [''GITHUB_TOKEN'' \<mapsto> ''abc123''], globals = Map.empty, trace = []\<rparr>
           = Inr sn
         \<and> map (globals sn) constant_names = map (globals s1) constant_names)"
proof -
  have h: "list_all (\<lambda>f. \<forall>t. environ (f t) ''GITHUB_TOKEN'' = environ t ''GITHUB_TOKEN'')
     [\<lambda>t. t\<lparr>environ := (environ t)(''HOME'' \<mapsto> ''/tmp'')\<rparr>,
      \<lambda>t. t\<lparr>globals := (globals t)(''VERSION_PREFIX'' \<mapsto> PyStr ''v'')\<rparr>]"
    by simp
  from h load_idempotent [OF h] show ?thesis
    by blast
qed

subsection \<open>The constants over the lifetime of the module\<close>




end
